theory Spec2Isabelle
  imports Complex_Main
begin

section \<open>Numbers and errors\<close>

text \<open>
  The library computes on C++ \<^verbatim>\<open>double\<close>. The model reads a double as a real number: a
  finite value, with arithmetic that does not round. NaN, the infinities and rounding
  are outside the model. The inputs at which theorems below evaluate the code are small
  integers wherever the code allows it, on which double arithmetic is exact.

  A literal of the source stands for the double it denotes, which for \<^verbatim>\<open>0.000001\<close> is
  not the decimal number.

  \<^verbatim>\<open>std::numeric_limits<double>::epsilon()\<close> is the constant of the C++ library for
  IEEE-754 binary64: two to the power -52.
\<close>

definition epsilon :: real where
  "epsilon = 1 / 2 ^ 52"

text \<open>
  The two exceptions the library throws: \<^verbatim>\<open>std::out_of_range\<close> (the indexed accessors)
  and \<^verbatim>\<open>std::runtime_error\<close> (\<^verbatim>\<open>Matrix3::inverse\<close>). A function that can throw, or that
  calls one that can, returns a result; \<open>bindR\<close> is the sequencing of two such
  calls: the first exception thrown is the one that leaves the function.
\<close>

datatype error = out_of_range | runtime_error

type_synonym 'a result = "error + 'a"

definition bindR :: "'a result \<Rightarrow> ('a \<Rightarrow> 'b result) \<Rightarrow> 'b result" where
  "bindR r f = (case r of Inl e \<Rightarrow> Inl e | Inr v \<Rightarrow> f v)"

section \<open>Vector3 (vector3.cpp)\<close>

record vector3 =
  vec_x :: real
  vec_y :: real
  vec_z :: real

text \<open>
  \<^verbatim>\<open>Vector3(x, y, z)\<close> and \<^verbatim>\<open>Vector3()\<close>. The sources also write
  \<^verbatim>\<open>Vector3{x, y, z}\<close>, and the constructor of \<^verbatim>\<open>Matrix3\<close> initialises a row with
  \<^verbatim>\<open>row_0_{a1, a2, a3}\<close>. \<^verbatim>\<open>vector3.cpp\<close> defines no other constructor, so there the
  braces call the constructor of three doubles. One header of \<^verbatim>\<open>Vector3\<close> declares in
  addition \<^verbatim>\<open>explicit Vector3(std::initializer_list<double> list)\<close>, which the braces
  call where it is declared; no source file defines it.

  Modelled from the spec: that constructor, on a list of three doubles, builds the vector
  with these components in order (the spec lists construction from a component list; the
  header says the constructor throws only when the size of the list is different to 3).
  Every such list in the sources has three elements, so the model has the one
  constructor \<open>Vector3\<close> for both.
\<close>

definition Vector3 :: "real \<Rightarrow> real \<Rightarrow> real \<Rightarrow> vector3" where
  "Vector3 x y z = \<lparr>vec_x = x, vec_y = y, vec_z = z\<rparr>"

definition Vector3_default :: vector3 where
  "Vector3_default = \<lparr>vec_x = 0, vec_y = 0, vec_z = 0\<rparr>"

definition Vector3_kZero :: vector3 where
  "Vector3_kZero = Vector3 0 0 0"

definition kUnitX :: vector3 where
  "kUnitX = Vector3 1 0 0"

definition kUnitY :: vector3 where
  "kUnitY = Vector3 0 1 0"

definition kUnitZ :: vector3 where
  "kUnitZ = Vector3 0 0 1"

text \<open>
  The compound assignments update the three fields of the left operand and return it;
  the binary operators copy the left operand and apply the compound assignment to the
  copy.
\<close>

definition v_plus_assign :: "vector3 \<Rightarrow> vector3 \<Rightarrow> vector3" where
  "v_plus_assign self v =
     self\<lparr>vec_x := vec_x self + vec_x v, vec_y := vec_y self + vec_y v,
          vec_z := vec_z self + vec_z v\<rparr>"

definition v_times_assign :: "vector3 \<Rightarrow> vector3 \<Rightarrow> vector3" where
  "v_times_assign self v =
     self\<lparr>vec_x := vec_x self * vec_x v, vec_y := vec_y self * vec_y v,
          vec_z := vec_z self * vec_z v\<rparr>"

definition v_times_assign_scalar :: "vector3 \<Rightarrow> real \<Rightarrow> vector3" where
  "v_times_assign_scalar self scalar =
     self\<lparr>vec_x := vec_x self * scalar, vec_y := vec_y self * scalar,
          vec_z := vec_z self * scalar\<rparr>"

definition v_plus :: "vector3 \<Rightarrow> vector3 \<Rightarrow> vector3" where
  "v_plus self v = (let aux = self in v_plus_assign aux v)"

definition v_times_scalar :: "vector3 \<Rightarrow> real \<Rightarrow> vector3" where
  "v_times_scalar self scalar = (let aux = self in v_times_assign_scalar aux scalar)"

text \<open>The free function \<^verbatim>\<open>operator*(double scalar, const Vector3& vector)\<close>.\<close>

definition scalar_times_v :: "real \<Rightarrow> vector3 \<Rightarrow> vector3" where
  "scalar_times_v scalar v = v_times_scalar v scalar"

text \<open>\<^verbatim>\<open>Vector3::operator==\<close>.\<close>

definition v_eq :: "vector3 \<Rightarrow> vector3 \<Rightarrow> bool" where
  "v_eq self v \<longleftrightarrow>
     \<bar>vec_x self - vec_x v\<bar> \<le> epsilon \<and>
     \<bar>vec_y self - vec_y v\<bar> \<le> epsilon \<and>
     \<bar>vec_z self - vec_z v\<bar> \<le> epsilon"

text \<open>
  \<^verbatim>\<open>double Vector3::operator[](const int index) const\<close>. Every value of a C++
  \<^verbatim>\<open>int\<close> is an integer, and the switch compares the index only with 0, 1 and 2.
\<close>

definition v_index :: "vector3 \<Rightarrow> int \<Rightarrow> real result" where
  "v_index self i =
     (if i = 0 then Inr (vec_x self)
      else if i = 1 then Inr (vec_y self)
      else if i = 2 then Inr (vec_z self)
      else Inl out_of_range)"

text \<open>
  \<^verbatim>\<open>double& Vector3::operator[](const int index)\<close> returns a reference to a field of
  the object. A reference is the name of the field it designates; the accessor is a
  non-const member, so the model returns the object as the call leaves it together with
  the result.
\<close>

datatype vref = ref_x | ref_y | ref_z

definition vref_read :: "vector3 \<Rightarrow> vref \<Rightarrow> real" where
  "vref_read v r = (case r of ref_x \<Rightarrow> vec_x v | ref_y \<Rightarrow> vec_y v | ref_z \<Rightarrow> vec_z v)"

definition vref_write :: "vector3 \<Rightarrow> vref \<Rightarrow> real \<Rightarrow> vector3" where
  "vref_write v r a =
     (case r of ref_x \<Rightarrow> v\<lparr>vec_x := a\<rparr> | ref_y \<Rightarrow> v\<lparr>vec_y := a\<rparr> | ref_z \<Rightarrow> v\<lparr>vec_z := a\<rparr>)"

definition v_index_ref :: "vector3 \<Rightarrow> int \<Rightarrow> vref result \<times> vector3" where
  "v_index_ref self i =
     (if i = 0 then (Inr ref_x, self)
      else if i = 1 then (Inr ref_y, self)
      else if i = 2 then (Inr ref_z, self)
      else (Inl out_of_range, self))"

definition dot :: "vector3 \<Rightarrow> vector3 \<Rightarrow> real" where
  "dot self v = vec_x self * vec_x v + vec_y self * vec_y v + vec_z self * vec_z v"

definition norm_v :: "vector3 \<Rightarrow> real" where
  "norm_v self = sqrt (dot self self)"

section \<open>Matrix3 (matrix3.cpp)\<close>

text \<open>
  The sources hold two copies of \<^verbatim>\<open>matrix3.cpp\<close>. They agree on every function both
  have; \<^verbatim>\<open>inverse\<close> and the two \<^verbatim>\<open>product\<close> functions are in the longer copy only.
\<close>

record matrix3 =
  row_0 :: vector3
  row_1 :: vector3
  row_2 :: vector3

definition Matrix3 ::
  "real \<Rightarrow> real \<Rightarrow> real \<Rightarrow> real \<Rightarrow> real \<Rightarrow> real \<Rightarrow> real \<Rightarrow> real \<Rightarrow> real \<Rightarrow> matrix3" where
  "Matrix3 a1 a2 a3 b1 b2 b3 c1 c2 c3 =
     \<lparr>row_0 = Vector3 a1 a2 a3, row_1 = Vector3 b1 b2 b3, row_2 = Vector3 c1 c2 c3\<rparr>"

definition kIdentity :: matrix3 where
  "kIdentity = Matrix3 1 0 0 0 1 0 0 0 1"

definition kOnes :: matrix3 where
  "kOnes = Matrix3 1 1 1 1 1 1 1 1 1"

definition Matrix3_kZero :: matrix3 where
  "Matrix3_kZero = Matrix3 0 0 0 0 0 0 0 0 0"

text \<open>\<^verbatim>\<open>Vector3 Matrix3::operator[](const int index) const\<close>: a copy of the row.\<close>

definition m_index :: "matrix3 \<Rightarrow> int \<Rightarrow> vector3 result" where
  "m_index self i =
     (if i = 0 then Inr (row_0 self)
      else if i = 1 then Inr (row_1 self)
      else if i = 2 then Inr (row_2 self)
      else Inl out_of_range)"

text \<open>\<^verbatim>\<open>Vector3& Matrix3::operator[](const int index)\<close>: a reference to the row.\<close>

datatype mref = ref_row_0 | ref_row_1 | ref_row_2

definition mref_read :: "matrix3 \<Rightarrow> mref \<Rightarrow> vector3" where
  "mref_read m r = (case r of ref_row_0 \<Rightarrow> row_0 m | ref_row_1 \<Rightarrow> row_1 m | ref_row_2 \<Rightarrow> row_2 m)"

definition mref_write :: "matrix3 \<Rightarrow> mref \<Rightarrow> vector3 \<Rightarrow> matrix3" where
  "mref_write m r v =
     (case r of ref_row_0 \<Rightarrow> m\<lparr>row_0 := v\<rparr> | ref_row_1 \<Rightarrow> m\<lparr>row_1 := v\<rparr>
      | ref_row_2 \<Rightarrow> m\<lparr>row_2 := v\<rparr>)"

definition m_index_ref :: "matrix3 \<Rightarrow> int \<Rightarrow> mref result \<times> matrix3" where
  "m_index_ref self i =
     (if i = 0 then (Inr ref_row_0, self)
      else if i = 1 then (Inr ref_row_1, self)
      else if i = 2 then (Inr ref_row_2, self)
      else (Inl out_of_range, self))"

text \<open>
  \<^verbatim>\<open>Matrix3::operator==\<close>: \<^verbatim>\<open>row_0_ == matrix[0] && row_1_ == matrix[1] && row_2_ == matrix[2]\<close>,
  with the short circuit of \<^verbatim>\<open>&&\<close>.
\<close>

definition m_eq :: "matrix3 \<Rightarrow> matrix3 \<Rightarrow> bool result" where
  "m_eq self m =
     bindR (m_index m 0) (\<lambda>r0.
       if \<not> v_eq (row_0 self) r0 then Inr False
       else bindR (m_index m 1) (\<lambda>r1.
         if \<not> v_eq (row_1 self) r1 then Inr False
         else bindR (m_index m 2) (\<lambda>r2. Inr (v_eq (row_2 self) r2))))"

text \<open>
  \<^verbatim>\<open>Matrix3::operator*=(const Matrix3&)\<close> multiplies each row by the same row of the
  argument, component by component (\<^verbatim>\<open>Vector3::operator*=\<close>).
\<close>

definition m_times_assign :: "matrix3 \<Rightarrow> matrix3 \<Rightarrow> matrix3 result" where
  "m_times_assign self m =
     bindR (m_index m 0) (\<lambda>r0.
       let s1 = self\<lparr>row_0 := v_times_assign (row_0 self) r0\<rparr> in
       bindR (m_index m 1) (\<lambda>r1.
         let s2 = s1\<lparr>row_1 := v_times_assign (row_1 s1) r1\<rparr> in
         bindR (m_index m 2) (\<lambda>r2.
           Inr (s2\<lparr>row_2 := v_times_assign (row_2 s2) r2\<rparr>))))"

definition m_times_assign_scalar :: "matrix3 \<Rightarrow> real \<Rightarrow> matrix3" where
  "m_times_assign_scalar self scalar =
     self\<lparr>row_0 := v_times_assign_scalar (row_0 self) scalar,
          row_1 := v_times_assign_scalar (row_1 self) scalar,
          row_2 := v_times_assign_scalar (row_2 self) scalar\<rparr>"

text \<open>\<^verbatim>\<open>Matrix3::operator*(const Matrix3&)\<close>.\<close>

definition m_times :: "matrix3 \<Rightarrow> matrix3 \<Rightarrow> matrix3 result" where
  "m_times self m = (let aux = self in m_times_assign aux m)"

text \<open>\<^verbatim>\<open>Matrix3::operator*(const Vector3&)\<close>.\<close>

definition m_times_vec :: "matrix3 \<Rightarrow> vector3 \<Rightarrow> vector3" where
  "m_times_vec self v = Vector3 (dot (row_0 self) v) (dot (row_1 self) v) (dot (row_2 self) v)"

text \<open>\<^verbatim>\<open>Matrix3::operator*(const double)\<close> and the free \<^verbatim>\<open>operator*(double, const Matrix3&)\<close>.\<close>

definition m_times_scalar :: "matrix3 \<Rightarrow> real \<Rightarrow> matrix3" where
  "m_times_scalar self scalar = (let aux = self in m_times_assign_scalar aux scalar)"

definition scalar_times_m :: "real \<Rightarrow> matrix3 \<Rightarrow> matrix3" where
  "scalar_times_m scalar m = m_times_scalar m scalar"

text \<open>
  \<^verbatim>\<open>Matrix3::det\<close>. The nine elements are read with \<^verbatim>\<open>Vector3::operator[]\<close>; they are
  named as \<^verbatim>\<open>Matrix3::inverse\<close> names them.
\<close>

definition m_det :: "matrix3 \<Rightarrow> real result" where
  "m_det self =
     bindR (v_index (row_0 self) 0) (\<lambda>a.
     bindR (v_index (row_0 self) 1) (\<lambda>b.
     bindR (v_index (row_0 self) 2) (\<lambda>c.
     bindR (v_index (row_1 self) 0) (\<lambda>d.
     bindR (v_index (row_1 self) 1) (\<lambda>e.
     bindR (v_index (row_1 self) 2) (\<lambda>f.
     bindR (v_index (row_2 self) 0) (\<lambda>g.
     bindR (v_index (row_2 self) 1) (\<lambda>h.
     bindR (v_index (row_2 self) 2) (\<lambda>k.
       Inr (a * (e * k - f * h) - b * (d * k - f * g) + c * (d * h - e * g)))))))))))"

text \<open>The value \<^verbatim>\<open>Matrix3::det\<close> computes, as an expression of the fields.\<close>

definition det_of :: "matrix3 \<Rightarrow> real" where
  "det_of m =
     vec_x (row_0 m) * (vec_y (row_1 m) * vec_z (row_2 m) - vec_z (row_1 m) * vec_y (row_2 m))
     - vec_y (row_0 m) * (vec_x (row_1 m) * vec_z (row_2 m) - vec_z (row_1 m) * vec_x (row_2 m))
     + vec_z (row_0 m) * (vec_x (row_1 m) * vec_y (row_2 m) - vec_y (row_1 m) * vec_x (row_2 m))"

text \<open>
  The literal \<^verbatim>\<open>0.000001\<close> of \<^verbatim>\<open>Matrix3::inverse\<close> is a double: the binary64 number
  nearest to one millionth, \<open>4722366482869645 * 2^-72\<close> (\<^verbatim>\<open>0x1.0c6f7a0b5ed8dp-20\<close>),
  which is a little below one millionth. \<^verbatim>\<open>1e-6\<close> is the same double. The guard of
  \<^verbatim>\<open>inverse\<close> compares with this number.
\<close>

definition double_0_000001 :: real where
  "double_0_000001 = 4722366482869645 / 2 ^ 72"

text \<open>
  \<^verbatim>\<open>Matrix3::inverse\<close>. The second element of the third row is
  \<^verbatim>\<open>-(a * h - b * h)\<close>, as the source has it.
\<close>

definition m_inverse :: "matrix3 \<Rightarrow> matrix3 result" where
  "m_inverse self =
     bindR (m_det self) (\<lambda>det.
       if \<bar>det\<bar> < double_0_000001 then Inl runtime_error
       else
         bindR (v_index (row_0 self) 0) (\<lambda>a.
         bindR (v_index (row_0 self) 1) (\<lambda>b.
         bindR (v_index (row_0 self) 2) (\<lambda>c.
         bindR (v_index (row_1 self) 0) (\<lambda>d.
         bindR (v_index (row_1 self) 1) (\<lambda>e.
         bindR (v_index (row_1 self) 2) (\<lambda>f.
         bindR (v_index (row_2 self) 0) (\<lambda>g.
         bindR (v_index (row_2 self) 1) (\<lambda>h.
         bindR (v_index (row_2 self) 2) (\<lambda>k.
           Inr (scalar_times_m (1 / det)
             (Matrix3 (e * k - f * h) (- (b * k - c * h)) (b * f - c * e)
                      (- (d * k - f * g)) (a * k - c * g) (- (a * f - c * d))
                      (d * h - e * g) (- (a * h - b * h)) (a * e - b * d)))))))))))))"

text \<open>\<^verbatim>\<open>Vector3 Matrix3::row(const int index) const\<close> and \<^verbatim>\<open>Matrix3::col\<close>.\<close>

definition m_row :: "matrix3 \<Rightarrow> int \<Rightarrow> vector3 result" where
  "m_row self i = m_index self i"

definition m_col :: "matrix3 \<Rightarrow> int \<Rightarrow> vector3 result" where
  "m_col self i =
     bindR (v_index (row_0 self) i) (\<lambda>a.
     bindR (v_index (row_1 self) i) (\<lambda>b.
     bindR (v_index (row_2 self) i) (\<lambda>c.
       Inr (Vector3 a b c))))"

text \<open>\<^verbatim>\<open>Matrix3::product(const Matrix3&)\<close>.\<close>

definition m_product :: "matrix3 \<Rightarrow> matrix3 \<Rightarrow> matrix3 result" where
  "m_product self m =
     bindR (m_row self 0) (\<lambda>r0.
     bindR (m_row self 1) (\<lambda>r1.
     bindR (m_row self 2) (\<lambda>r2.
     bindR (m_col m 0) (\<lambda>c0.
     bindR (m_col m 1) (\<lambda>c1.
     bindR (m_col m 2) (\<lambda>c2.
       Inr (Matrix3 (dot r0 c0) (dot r0 c1) (dot r0 c2)
                    (dot r1 c0) (dot r1 c1) (dot r1 c2)
                    (dot r2 c0) (dot r2 c1) (dot r2 c2))))))))"

text \<open>
  \<^verbatim>\<open>Matrix3::product(const Vector3&)\<close>: the loop \<^verbatim>\<open>for (int i = 0; i < 3; ++i)\<close> over a
  \<^verbatim>\<open>std::array<double, 3>\<close> that starts at zero; \<^verbatim>\<open>arr.at(i)\<close> is the checked access
  of the array.
\<close>

definition array_at_assign :: "real list \<Rightarrow> int \<Rightarrow> real \<Rightarrow> real list result" where
  "array_at_assign arr i a =
     (if 0 \<le> i \<and> i < int (length arr) then Inr (arr[nat i := a]) else Inl out_of_range)"

function product_loop :: "matrix3 \<Rightarrow> vector3 \<Rightarrow> int \<Rightarrow> real list \<Rightarrow> real list result" where
  "product_loop self v i arr =
     (if i < 3 then
        bindR (m_row self i) (\<lambda>r.
        bindR (array_at_assign arr i (dot r v)) (\<lambda>arr'.
          product_loop self v (i + 1) arr'))
      else Inr arr)"
  by pat_completeness auto
termination
  by (relation "measure (\<lambda>(self, v, i, arr). nat (3 - i))") auto

declare product_loop.simps [simp del]

definition m_product_vec :: "matrix3 \<Rightarrow> vector3 \<Rightarrow> vector3 result" where
  "m_product_vec self v =
     bindR (product_loop self v 0 [0, 0, 0]) (\<lambda>arr.
       Inr (Vector3 (arr ! 0) (arr ! 1) (arr ! 2)))"

section \<open>Isometry (isometry.cpp)\<close>

record isometry =
  rotation :: matrix3
  translation :: vector3

text \<open>\<^verbatim>\<open>Isometry()\<close> and \<^verbatim>\<open>Isometry(translation, rotation)\<close>.\<close>

definition Isometry_default :: isometry where
  "Isometry_default = \<lparr>rotation = Matrix3_kZero, translation = Vector3_default\<rparr>"

definition Isometry :: "vector3 \<Rightarrow> matrix3 \<Rightarrow> isometry" where
  "Isometry t r = \<lparr>rotation = r, translation = t\<rparr>"

definition fromTranslation :: "vector3 \<Rightarrow> isometry" where
  "fromTranslation v = Isometry v kIdentity"

text \<open>
  \<^verbatim>\<open>Isometry::rotateAround\<close>. \<^verbatim>\<open>std::pow(u, 2.)\<close> is the square of \<open>u\<close>. The code
  divides by the norm of the axis without a check: on an axis of norm zero the C++
  yields NaN components, which the model does not have, so the model stands for the
  code on axes of non-zero norm only.
\<close>

definition rotateAround :: "vector3 \<Rightarrow> real \<Rightarrow> isometry result" where
  "rotateAround v radians =
     bindR (v_index v 0) (\<lambda>v0.
     bindR (v_index v 1) (\<lambda>v1.
     bindR (v_index v 2) (\<lambda>v2.
       let ux = v0 / norm_v v;
           uy = v1 / norm_v v;
           uz = v2 / norm_v v;
           cosAngle = cos radians;
           sinAngle = sin radians;
           rotationMatrix =
             Matrix3 (cosAngle + ux ^ 2 * (1 - cosAngle))
                     (ux * uy * (1 - cosAngle) - uz * sinAngle)
                     (ux * uz * (1 - cosAngle) + uy * sinAngle)
                     (uy * ux * (1 - cosAngle) + uz * sinAngle)
                     (cosAngle + uy ^ 2 * (1 - cosAngle))
                     (uy * uz * (1 - cosAngle) - ux * sinAngle)
                     (uz * ux * (1 - cosAngle) - uy * sinAngle)
                     (uz * uy * (1 - cosAngle) + ux * sinAngle)
                     (cosAngle + uz ^ 2 * (1 - cosAngle))
       in Inr (Isometry Vector3_default rotationMatrix))))"

text \<open>\<^verbatim>\<open>Isometry::transform\<close>: \<^verbatim>\<open>rotation_ * vector + translation_\<close>.\<close>

definition transform :: "isometry \<Rightarrow> vector3 \<Rightarrow> vector3" where
  "transform self v = v_plus (m_times_vec (rotation self) v) (translation self)"

text \<open>\<^verbatim>\<open>Isometry::inverse\<close>.\<close>

definition iso_inverse :: "isometry \<Rightarrow> isometry result" where
  "iso_inverse self =
     bindR (m_inverse (rotation self)) (\<lambda>inv_rot.
     bindR (m_product_vec inv_rot (translation self)) (\<lambda>p.
       Inr (Isometry (scalar_times_v (- 1) p) inv_rot)))"

text \<open>
  \<^verbatim>\<open>Isometry::operator*(const Isometry&)\<close>: the rotation of the result is
  \<^verbatim>\<open>rotation_ * isometry.rotation()\<close>, that is \<^verbatim>\<open>Matrix3::operator*(const Matrix3&)\<close>.
\<close>

definition iso_times :: "isometry \<Rightarrow> isometry \<Rightarrow> isometry result" where
  "iso_times self other =
     bindR (m_times (rotation self) (rotation other)) (\<lambda>r.
       Inr (Isometry (v_plus (m_times_vec (rotation self) (translation other))
                             (translation self)) r))"

definition compose :: "isometry \<Rightarrow> isometry \<Rightarrow> isometry result" where
  "compose self other = iso_times self other"

text \<open>\<^verbatim>\<open>Isometry::operator*(const Vector3&)\<close>.\<close>

definition iso_times_vec :: "isometry \<Rightarrow> vector3 \<Rightarrow> vector3 result" where
  "iso_times_vec self v =
     bindR (m_product_vec (rotation self) v) (\<lambda>p. Inr (v_plus p (translation self)))"

text \<open>\<^verbatim>\<open>Isometry::operator==\<close>.\<close>

definition iso_eq :: "isometry \<Rightarrow> isometry \<Rightarrow> bool result" where
  "iso_eq self other =
     bindR (m_eq (rotation self) (rotation other)) (\<lambda>same_rotation.
       if \<not> same_rotation then Inr False
       else Inr (v_eq (translation self) (translation other)))"

section \<open>The accessors and the operations in closed form\<close>

lemma bindR_Inr [simp]: "bindR (Inr a) f = f a"
  by (simp add: bindR_def)

lemma bindR_Inl [simp]: "bindR (Inl e) f = Inl e"
  by (simp add: bindR_def)

lemma v_index_literal [simp]:
  "v_index v 0 = Inr (vec_x v)" "v_index v 1 = Inr (vec_y v)" "v_index v 2 = Inr (vec_z v)"
  by (simp_all add: v_index_def)

lemma m_index_literal [simp]:
  "m_index m 0 = Inr (row_0 m)" "m_index m 1 = Inr (row_1 m)" "m_index m 2 = Inr (row_2 m)"
  by (simp_all add: m_index_def)

lemma Vector3_sel [simp]:
  "vec_x (Vector3 x y z) = x" "vec_y (Vector3 x y z) = y" "vec_z (Vector3 x y z) = z"
  by (simp_all add: Vector3_def)

lemma Matrix3_sel [simp]:
  "row_0 (Matrix3 a1 a2 a3 b1 b2 b3 c1 c2 c3) = Vector3 a1 a2 a3"
  "row_1 (Matrix3 a1 a2 a3 b1 b2 b3 c1 c2 c3) = Vector3 b1 b2 b3"
  "row_2 (Matrix3 a1 a2 a3 b1 b2 b3 c1 c2 c3) = Vector3 c1 c2 c3"
  by (simp_all add: Matrix3_def)

lemma Isometry_sel [simp]:
  "rotation (Isometry t r) = r" "translation (Isometry t r) = t"
  by (simp_all add: Isometry_def)

lemma Vector3_eq_iff [simp]:
  "Vector3 x y z = Vector3 x' y' z' \<longleftrightarrow> x = x' \<and> y = y' \<and> z = z'"
  by (simp add: Vector3_def)

lemma Matrix3_eq_iff [simp]:
  "Matrix3 a1 a2 a3 b1 b2 b3 c1 c2 c3 = Matrix3 a1' a2' a3' b1' b2' b3' c1' c2' c3' \<longleftrightarrow>
     a1 = a1' \<and> a2 = a2' \<and> a3 = a3' \<and> b1 = b1' \<and> b2 = b2' \<and> b3 = b3' \<and>
     c1 = c1' \<and> c2 = c2' \<and> c3 = c3'"
  by (simp add: Matrix3_def)

lemma Isometry_eq_iff [simp]:
  "Isometry t r = Isometry t' r' \<longleftrightarrow> t = t' \<and> r = r'"
  by (auto simp add: Isometry_def)

lemma v_plus_closed:
  "v_plus a b = Vector3 (vec_x a + vec_x b) (vec_y a + vec_y b) (vec_z a + vec_z b)"
  by (simp add: v_plus_def v_plus_assign_def Vector3_def)

lemma v_times_assign_closed:
  "v_times_assign a b = Vector3 (vec_x a * vec_x b) (vec_y a * vec_y b) (vec_z a * vec_z b)"
  by (simp add: v_times_assign_def Vector3_def)

lemma scalar_times_v_closed:
  "scalar_times_v s v = Vector3 (vec_x v * s) (vec_y v * s) (vec_z v * s)"
  by (simp add: scalar_times_v_def v_times_scalar_def v_times_assign_scalar_def Vector3_def)

lemma m_eq_closed:
  "m_eq a b = Inr (v_eq (row_0 a) (row_0 b) \<and> v_eq (row_1 a) (row_1 b) \<and> v_eq (row_2 a) (row_2 b))"
  by (simp add: m_eq_def)

lemma m_times_closed:
  "m_times a b =
     Inr \<lparr>row_0 = v_times_assign (row_0 a) (row_0 b),
          row_1 = v_times_assign (row_1 a) (row_1 b),
          row_2 = v_times_assign (row_2 a) (row_2 b)\<rparr>"
  by (simp add: m_times_def m_times_assign_def)

lemma scalar_times_m_closed:
  "scalar_times_m s m =
     \<lparr>row_0 = scalar_times_v s (row_0 m), row_1 = scalar_times_v s (row_1 m),
      row_2 = scalar_times_v s (row_2 m)\<rparr>"
  by (simp add: scalar_times_m_def m_times_scalar_def m_times_assign_scalar_def
      scalar_times_v_def v_times_scalar_def)

lemma m_det_closed: "m_det m = Inr (det_of m)"
  by (simp add: m_det_def det_of_def)

lemma m_col_literal:
  "m_col m 0 = Inr (Vector3 (vec_x (row_0 m)) (vec_x (row_1 m)) (vec_x (row_2 m)))"
  "m_col m 1 = Inr (Vector3 (vec_y (row_0 m)) (vec_y (row_1 m)) (vec_y (row_2 m)))"
  "m_col m 2 = Inr (Vector3 (vec_z (row_0 m)) (vec_z (row_1 m)) (vec_z (row_2 m)))"
  by (simp_all add: m_col_def)

lemma m_product_closed:
  "m_product a b =
     Inr (Matrix3
       (dot (row_0 a) (Vector3 (vec_x (row_0 b)) (vec_x (row_1 b)) (vec_x (row_2 b))))
       (dot (row_0 a) (Vector3 (vec_y (row_0 b)) (vec_y (row_1 b)) (vec_y (row_2 b))))
       (dot (row_0 a) (Vector3 (vec_z (row_0 b)) (vec_z (row_1 b)) (vec_z (row_2 b))))
       (dot (row_1 a) (Vector3 (vec_x (row_0 b)) (vec_x (row_1 b)) (vec_x (row_2 b))))
       (dot (row_1 a) (Vector3 (vec_y (row_0 b)) (vec_y (row_1 b)) (vec_y (row_2 b))))
       (dot (row_1 a) (Vector3 (vec_z (row_0 b)) (vec_z (row_1 b)) (vec_z (row_2 b))))
       (dot (row_2 a) (Vector3 (vec_x (row_0 b)) (vec_x (row_1 b)) (vec_x (row_2 b))))
       (dot (row_2 a) (Vector3 (vec_y (row_0 b)) (vec_y (row_1 b)) (vec_y (row_2 b))))
       (dot (row_2 a) (Vector3 (vec_z (row_0 b)) (vec_z (row_1 b)) (vec_z (row_2 b)))))"
  by (simp add: m_product_def m_row_def m_col_literal)

lemma product_loop_closed:
  "product_loop m v 0 [x0, x1, x2] = Inr [dot (row_0 m) v, dot (row_1 m) v, dot (row_2 m) v]"
  by (simp add: product_loop.simps [of m v 0] product_loop.simps [of m v 1]
      product_loop.simps [of m v 2] product_loop.simps [of m v 3] m_row_def array_at_assign_def)

lemma m_product_vec_closed: "m_product_vec m v = Inr (m_times_vec m v)"
  by (simp add: m_product_vec_def product_loop_closed m_times_vec_def)

lemma iso_times_closed:
  "iso_times a b =
     Inr (Isometry (v_plus (m_times_vec (rotation a) (translation b)) (translation a))
       \<lparr>row_0 = v_times_assign (row_0 (rotation a)) (row_0 (rotation b)),
        row_1 = v_times_assign (row_1 (rotation a)) (row_1 (rotation b)),
        row_2 = v_times_assign (row_2 (rotation a)) (row_2 (rotation b))\<rparr>)"
  by (simp add: iso_times_def m_times_closed)

text \<open>
  The threshold is a binary64 number: a 53-bit significand times a power of two. It is
  within half a unit in the last place of one millionth, so it is the double the literal
  denotes, and it is below one millionth.
\<close>

lemma double_0_000001_binary64:
  "double_0_000001 = 4722366482869645 * (1 / 2 ^ 72) \<and>
   (2::nat) ^ 52 \<le> 4722366482869645 \<and> (4722366482869645::nat) < 2 ^ 53 \<and>
   double_0_000001 < 1 / 1000000 \<and> 1 / 1000000 - double_0_000001 < 1 / 2 ^ 73"
  by (simp add: double_0_000001_def)

lemma double_0_000001_pos: "0 < double_0_000001"
  by (simp add: double_0_000001_def)

lemma double_0_000001_less_one: "double_0_000001 < 1"
  by (simp add: double_0_000001_def)

lemma m_inverse_closed:
  "m_inverse m =
     (if \<bar>det_of m\<bar> < double_0_000001 then Inl runtime_error
      else Inr (scalar_times_m (1 / det_of m)
        (Matrix3
          (vec_y (row_1 m) * vec_z (row_2 m) - vec_z (row_1 m) * vec_y (row_2 m))
          (- (vec_y (row_0 m) * vec_z (row_2 m) - vec_z (row_0 m) * vec_y (row_2 m)))
          (vec_y (row_0 m) * vec_z (row_1 m) - vec_z (row_0 m) * vec_y (row_1 m))
          (- (vec_x (row_1 m) * vec_z (row_2 m) - vec_z (row_1 m) * vec_x (row_2 m)))
          (vec_x (row_0 m) * vec_z (row_2 m) - vec_z (row_0 m) * vec_x (row_2 m))
          (- (vec_x (row_0 m) * vec_z (row_1 m) - vec_z (row_0 m) * vec_x (row_1 m)))
          (vec_x (row_1 m) * vec_y (row_2 m) - vec_y (row_1 m) * vec_x (row_2 m))
          (- (vec_x (row_0 m) * vec_y (row_2 m) - vec_y (row_0 m) * vec_y (row_2 m)))
          (vec_x (row_0 m) * vec_y (row_1 m) - vec_y (row_0 m) * vec_x (row_1 m)))))"
  by (simp add: m_inverse_def m_det_closed)

lemma iso_inverse_closed:
  "iso_inverse a =
     bindR (m_inverse (rotation a)) (\<lambda>inv_rot.
       Inr (Isometry (scalar_times_v (- 1) (m_times_vec inv_rot (translation a))) inv_rot))"
  by (simp add: iso_inverse_def m_product_vec_closed)

text \<open>
  \<^verbatim>\<open>Isometry::operator*(const Vector3&)\<close>, written with \<^verbatim>\<open>Matrix3::product\<close>, returns
  what \<^verbatim>\<open>Isometry::transform\<close>, written with \<^verbatim>\<open>Matrix3::operator*\<close>, returns.
\<close>

lemma iso_times_vec_closed: "iso_times_vec a v = Inr (transform a v)"
  by (simp add: iso_times_vec_def m_product_vec_closed transform_def)

lemma iso_eq_closed:
  "iso_eq a b =
     Inr (v_eq (row_0 (rotation a)) (row_0 (rotation b)) \<and>
          v_eq (row_1 (rotation a)) (row_1 (rotation b)) \<and>
          v_eq (row_2 (rotation a)) (row_2 (rotation b)) \<and>
          v_eq (translation a) (translation b))"
  by (cases "v_eq (row_0 (rotation a)) (row_0 (rotation b)) \<and>
      v_eq (row_1 (rotation a)) (row_1 (rotation b)) \<and>
      v_eq (row_2 (rotation a)) (row_2 (rotation b))")
    (auto simp add: iso_eq_def m_eq_closed)

section \<open>Isometry composition\<close>

text \<open>
  C1. The claim: \<open>A.compose(B)\<close> and \<open>A * B\<close> return the isometry whose translation is
  \<open>R1 t2 + t1\<close> and whose rotation is the matrix product \<open>R1 R2\<close>. The code at two
  quarter turns about the z axis, \<open>A\<close> with translation \<open>(1, 2, 3)\<close> and \<open>B\<close> with
  translation \<open>(4, 5, 6)\<close>: both calls return the translation \<open>(-4, 6, 9)\<close>, which is
  \<open>R1 t2 + t1\<close>, and a rotation that multiplies the two matrices element by element; it
  is not the matrix product, which \<open>Matrix3::product\<close> computes, and it differs from it
  by more than the tolerance of \<open>Matrix3::operator==\<close>.
\<close>

theorem compose_at_quarter_turns:
  "iso_times (Isometry (Vector3 1 2 3) (Matrix3 0 (- 1) 0 1 0 0 0 0 1))
             (Isometry (Vector3 4 5 6) (Matrix3 0 (- 1) 0 1 0 0 0 0 1))
     = Inr (Isometry (Vector3 (- 4) 6 9) (Matrix3 0 1 0 1 0 0 0 0 1)) \<and>
   compose (Isometry (Vector3 1 2 3) (Matrix3 0 (- 1) 0 1 0 0 0 0 1))
           (Isometry (Vector3 4 5 6) (Matrix3 0 (- 1) 0 1 0 0 0 0 1))
     = Inr (Isometry (Vector3 (- 4) 6 9) (Matrix3 0 1 0 1 0 0 0 0 1)) \<and>
   m_product (Matrix3 0 (- 1) 0 1 0 0 0 0 1) (Matrix3 0 (- 1) 0 1 0 0 0 0 1)
     = Inr (Matrix3 (- 1) 0 0 0 (- 1) 0 0 0 1) \<and>
   m_eq (Matrix3 0 1 0 1 0 0 0 0 1) (Matrix3 (- 1) 0 0 0 (- 1) 0 0 0 1) = Inr False"
proof -
  have times: "iso_times (Isometry (Vector3 1 2 3) (Matrix3 0 (- 1) 0 1 0 0 0 0 1))
      (Isometry (Vector3 4 5 6) (Matrix3 0 (- 1) 0 1 0 0 0 0 1))
    = Inr (Isometry (Vector3 (- 4) 6 9) (Matrix3 0 1 0 1 0 0 0 0 1))"
    by (simp add: iso_times_closed v_plus_closed m_times_vec_def dot_def
        v_times_assign_closed Matrix3_def)
  have prod: "m_product (Matrix3 0 (- 1) 0 1 0 0 0 0 1) (Matrix3 0 (- 1) 0 1 0 0 0 0 1)
    = Inr (Matrix3 (- 1) 0 0 0 (- 1) 0 0 0 1)"
    by (simp add: m_product_closed dot_def)
  have differ: "m_eq (Matrix3 0 1 0 1 0 0 0 0 1) (Matrix3 (- 1) 0 0 0 (- 1) 0 0 0 1) = Inr False"
    by (simp add: m_eq_closed v_eq_def epsilon_def)
  from times prod differ show ?thesis
    by (simp add: compose_def)
qed

text \<open>
  C4. The claim: \<open>(A * B) * C == A * (B * C)\<close> for all isometries. The code at
  \<open>A = B =\<close> the quarter turn about the z axis with no translation and
  \<open>C = fromTranslation((1, 0, 0))\<close>: the left side has translation \<open>(0, 1, 0)\<close>, the
  right side \<open>(-1, 0, 0)\<close>, and \<open>Isometry::operator==\<close> returns false.
\<close>

theorem times_assoc_at_quarter_turns:
  "iso_times (Isometry (Vector3 0 0 0) (Matrix3 0 (- 1) 0 1 0 0 0 0 1))
             (Isometry (Vector3 0 0 0) (Matrix3 0 (- 1) 0 1 0 0 0 0 1))
     = Inr (Isometry (Vector3 0 0 0) (Matrix3 0 1 0 1 0 0 0 0 1)) \<and>
   iso_times (Isometry (Vector3 0 0 0) (Matrix3 0 1 0 1 0 0 0 0 1))
             (fromTranslation (Vector3 1 0 0))
     = Inr (Isometry (Vector3 0 1 0) (Matrix3 0 0 0 0 0 0 0 0 1)) \<and>
   iso_times (Isometry (Vector3 0 0 0) (Matrix3 0 (- 1) 0 1 0 0 0 0 1))
             (fromTranslation (Vector3 1 0 0))
     = Inr (Isometry (Vector3 0 1 0) (Matrix3 0 0 0 0 0 0 0 0 1)) \<and>
   iso_times (Isometry (Vector3 0 0 0) (Matrix3 0 (- 1) 0 1 0 0 0 0 1))
             (Isometry (Vector3 0 1 0) (Matrix3 0 0 0 0 0 0 0 0 1))
     = Inr (Isometry (Vector3 (- 1) 0 0) (Matrix3 0 0 0 0 0 0 0 0 1)) \<and>
   iso_eq (Isometry (Vector3 0 1 0) (Matrix3 0 0 0 0 0 0 0 0 1))
          (Isometry (Vector3 (- 1) 0 0) (Matrix3 0 0 0 0 0 0 0 0 1)) = Inr False"
proof -
  have ab: "iso_times (Isometry (Vector3 0 0 0) (Matrix3 0 (- 1) 0 1 0 0 0 0 1))
      (Isometry (Vector3 0 0 0) (Matrix3 0 (- 1) 0 1 0 0 0 0 1))
    = Inr (Isometry (Vector3 0 0 0) (Matrix3 0 1 0 1 0 0 0 0 1))"
    by (simp add: iso_times_closed v_plus_closed m_times_vec_def dot_def
        v_times_assign_closed Matrix3_def)
  have ab_c: "iso_times (Isometry (Vector3 0 0 0) (Matrix3 0 1 0 1 0 0 0 0 1))
      (fromTranslation (Vector3 1 0 0))
    = Inr (Isometry (Vector3 0 1 0) (Matrix3 0 0 0 0 0 0 0 0 1))"
    by (simp add: iso_times_closed v_plus_closed m_times_vec_def dot_def
        v_times_assign_closed Matrix3_def fromTranslation_def kIdentity_def)
  have bc: "iso_times (Isometry (Vector3 0 0 0) (Matrix3 0 (- 1) 0 1 0 0 0 0 1))
      (fromTranslation (Vector3 1 0 0))
    = Inr (Isometry (Vector3 0 1 0) (Matrix3 0 0 0 0 0 0 0 0 1))"
    by (simp add: iso_times_closed v_plus_closed m_times_vec_def dot_def
        v_times_assign_closed Matrix3_def fromTranslation_def kIdentity_def)
  have a_bc: "iso_times (Isometry (Vector3 0 0 0) (Matrix3 0 (- 1) 0 1 0 0 0 0 1))
      (Isometry (Vector3 0 1 0) (Matrix3 0 0 0 0 0 0 0 0 1))
    = Inr (Isometry (Vector3 (- 1) 0 0) (Matrix3 0 0 0 0 0 0 0 0 1))"
    by (simp add: iso_times_closed v_plus_closed m_times_vec_def dot_def
        v_times_assign_closed Matrix3_def)
  have differ: "iso_eq (Isometry (Vector3 0 1 0) (Matrix3 0 0 0 0 0 0 0 0 1))
      (Isometry (Vector3 (- 1) 0 0) (Matrix3 0 0 0 0 0 0 0 0 1)) = Inr False"
    by (simp add: iso_eq_closed v_eq_def epsilon_def)
  from ab ab_c bc a_bc differ show ?thesis
    by simp
qed

section \<open>Matrix inversion\<close>

text \<open>
  C2. The claim: \<open>M.product(M.inverse())\<close> equals the identity whenever the determinant
  of \<open>M\<close> is at least \<open>1e-6\<close> in absolute value. The code at
  \<open>M = [[1, 1, 0], [0, 1, 0], [0, 1, 1]]\<close>, of determinant 1: \<open>inverse\<close> returns
  \<open>[[1, -1, 0], [0, 1, 0], [0, 0, 1]]\<close>, whose third row is not that of the inverse
  \<open>[[1, -1, 0], [0, 1, 0], [0, -1, 1]]\<close>, and the product is
  \<open>[[1, 0, 0], [0, 1, 0], [0, 1, 1]]\<close>, which \<open>Matrix3::operator==\<close> tells from the
  identity.
\<close>

theorem inverse_product_at_shear:
  "m_det (Matrix3 1 1 0 0 1 0 0 1 1) = Inr 1 \<and>
   m_inverse (Matrix3 1 1 0 0 1 0 0 1 1) = Inr (Matrix3 1 (- 1) 0 0 1 0 0 0 1) \<and>
   m_product (Matrix3 1 1 0 0 1 0 0 1 1) (Matrix3 1 (- 1) 0 0 1 0 0 0 1)
     = Inr (Matrix3 1 0 0 0 1 0 0 1 1) \<and>
   m_eq (Matrix3 1 0 0 0 1 0 0 1 1) kIdentity = Inr False \<and>
   m_product (Matrix3 1 1 0 0 1 0 0 1 1) (Matrix3 1 (- 1) 0 0 1 0 0 (- 1) 1) = Inr kIdentity"
proof -
  have det: "m_det (Matrix3 1 1 0 0 1 0 0 1 1) = Inr 1"
    by (simp add: m_det_closed det_of_def)
  have inv: "m_inverse (Matrix3 1 1 0 0 1 0 0 1 1) = Inr (Matrix3 1 (- 1) 0 0 1 0 0 0 1)"
    using double_0_000001_less_one
    by (simp add: m_inverse_closed det_of_def scalar_times_m_closed scalar_times_v_closed
        Matrix3_def)
  have prod: "m_product (Matrix3 1 1 0 0 1 0 0 1 1) (Matrix3 1 (- 1) 0 0 1 0 0 0 1)
    = Inr (Matrix3 1 0 0 0 1 0 0 1 1)"
    by (simp add: m_product_closed dot_def)
  have differ: "m_eq (Matrix3 1 0 0 0 1 0 0 1 1) kIdentity = Inr False"
    by (simp add: m_eq_closed v_eq_def epsilon_def kIdentity_def)
  have true_inverse:
    "m_product (Matrix3 1 1 0 0 1 0 0 1 1) (Matrix3 1 (- 1) 0 0 1 0 0 (- 1) 1) = Inr kIdentity"
    by (simp add: m_product_closed dot_def kIdentity_def)
  from det inv prod differ true_inverse show ?thesis
    by simp
qed

text \<open>
  Where the element \<^verbatim>\<open>-(a * h - b * h)\<close> shows: for a matrix
  \<open>[[a, b, c], [d, e, f], [g, h, k]]\<close> whose determinant \<open>D\<close> passes the guard, the
  product of the matrix with what \<open>inverse\<close> returns is the identity except in its middle
  column, which is off by \<open>b (h - g) / D\<close> times the last column of the matrix. It is the
  identity exactly when \<open>b = 0\<close> or \<open>g = h\<close>.
\<close>

lemma over_det:
  fixes p q r :: real
  shows "p * (X * (1 / D)) + q * (Y * (1 / D)) + r * (Z * (1 / D)) = (p * X + q * Y + r * Z) / D"
  by (simp add: add_divide_distrib)

lemma round_trip_entries:
  fixes a b c d e f g h k :: real
  assumes D: "D = a * (e * k - f * h) - b * (d * k - f * g) + c * (d * h - e * g)" and nz: "D \<noteq> 0"
  shows "a * ((e * k - f * h) * (1 / D)) + b * (- (d * k - f * g) * (1 / D)) + c * ((d * h - e * g) * (1 / D)) = 1"
    and "d * ((e * k - f * h) * (1 / D)) + e * (- (d * k - f * g) * (1 / D)) + f * ((d * h - e * g) * (1 / D)) = 0"
    and "g * ((e * k - f * h) * (1 / D)) + h * (- (d * k - f * g) * (1 / D)) + k * ((d * h - e * g) * (1 / D)) = 0"
    and "a * ((b * f - c * e) * (1 / D)) + b * (- (a * f - c * d) * (1 / D)) + c * ((a * e - b * d) * (1 / D)) = 0"
    and "d * ((b * f - c * e) * (1 / D)) + e * (- (a * f - c * d) * (1 / D)) + f * ((a * e - b * d) * (1 / D)) = 0"
    and "g * ((b * f - c * e) * (1 / D)) + h * (- (a * f - c * d) * (1 / D)) + k * ((a * e - b * d) * (1 / D)) = 1"
    and "a * (- (b * k - c * h) * (1 / D)) + b * ((a * k - c * g) * (1 / D)) + c * (- (a * h - b * h) * (1 / D)) = c * (b * (h - g)) / D"
    and "d * (- (b * k - c * h) * (1 / D)) + e * ((a * k - c * g) * (1 / D)) + f * (- (a * h - b * h) * (1 / D)) = 1 + f * (b * (h - g)) / D"
    and "g * (- (b * k - c * h) * (1 / D)) + h * ((a * k - c * g) * (1 / D)) + k * (- (a * h - b * h) * (1 / D)) = k * (b * (h - g)) / D"
proof -
  have n1: "a * (e * k - f * h) + b * - (d * k - f * g) + c * (d * h - e * g) = D"
    unfolding D by (simp add: algebra_simps)
  have n2: "d * (e * k - f * h) + e * - (d * k - f * g) + f * (d * h - e * g) = 0"
    by (simp add: algebra_simps)
  have n3: "g * (e * k - f * h) + h * - (d * k - f * g) + k * (d * h - e * g) = 0"
    by (simp add: algebra_simps)
  have n4: "a * (b * f - c * e) + b * - (a * f - c * d) + c * (a * e - b * d) = 0"
    by (simp add: algebra_simps)
  have n5: "d * (b * f - c * e) + e * - (a * f - c * d) + f * (a * e - b * d) = 0"
    by (simp add: algebra_simps)
  have n6: "g * (b * f - c * e) + h * - (a * f - c * d) + k * (a * e - b * d) = D"
    unfolding D by (simp add: algebra_simps)
  have n7: "a * - (b * k - c * h) + b * (a * k - c * g) + c * - (a * h - b * h) = c * (b * (h - g))"
    by (simp add: algebra_simps)
  have n8: "d * - (b * k - c * h) + e * (a * k - c * g) + f * - (a * h - b * h) = D + f * (b * (h - g))"
    unfolding D by (simp add: algebra_simps)
  have n9: "g * - (b * k - c * h) + h * (a * k - c * g) + k * - (a * h - b * h) = k * (b * (h - g))"
    by (simp add: algebra_simps)
  show "a * ((e * k - f * h) * (1 / D)) + b * (- (d * k - f * g) * (1 / D)) + c * ((d * h - e * g) * (1 / D)) = 1"
    unfolding over_det n1 using nz by simp
  show "d * ((e * k - f * h) * (1 / D)) + e * (- (d * k - f * g) * (1 / D)) + f * ((d * h - e * g) * (1 / D)) = 0"
    unfolding over_det n2 by simp
  show "g * ((e * k - f * h) * (1 / D)) + h * (- (d * k - f * g) * (1 / D)) + k * ((d * h - e * g) * (1 / D)) = 0"
    unfolding over_det n3 by simp
  show "a * ((b * f - c * e) * (1 / D)) + b * (- (a * f - c * d) * (1 / D)) + c * ((a * e - b * d) * (1 / D)) = 0"
    unfolding over_det n4 by simp
  show "d * ((b * f - c * e) * (1 / D)) + e * (- (a * f - c * d) * (1 / D)) + f * ((a * e - b * d) * (1 / D)) = 0"
    unfolding over_det n5 by simp
  show "g * ((b * f - c * e) * (1 / D)) + h * (- (a * f - c * d) * (1 / D)) + k * ((a * e - b * d) * (1 / D)) = 1"
    unfolding over_det n6 using nz by simp
  show "a * (- (b * k - c * h) * (1 / D)) + b * ((a * k - c * g) * (1 / D)) + c * (- (a * h - b * h) * (1 / D)) = c * (b * (h - g)) / D"
    unfolding over_det n7 by simp
  show "d * (- (b * k - c * h) * (1 / D)) + e * ((a * k - c * g) * (1 / D)) + f * (- (a * h - b * h) * (1 / D)) = 1 + f * (b * (h - g)) / D"
    unfolding over_det n8 using nz by (simp add: add_divide_distrib)
  show "g * (- (b * k - c * h) * (1 / D)) + h * ((a * k - c * g) * (1 / D)) + k * (- (a * h - b * h) * (1 / D)) = k * (b * (h - g)) / D"
    unfolding over_det n9 by simp
qed

lemma m_inverse_Matrix3:
  assumes "D = a * (e * k - f * h) - b * (d * k - f * g) + c * (d * h - e * g)"
    and "\<not> \<bar>D\<bar> < double_0_000001"
  shows "m_inverse (Matrix3 a b c d e f g h k) =
     Inr (Matrix3 ((e * k - f * h) * (1 / D)) (- (b * k - c * h) * (1 / D)) ((b * f - c * e) * (1 / D))
                  (- (d * k - f * g) * (1 / D)) ((a * k - c * g) * (1 / D)) (- (a * f - c * d) * (1 / D))
                  ((d * h - e * g) * (1 / D)) (- (a * h - b * h) * (1 / D)) ((a * e - b * d) * (1 / D)))"
  using assms
  by (simp add: m_inverse_closed det_of_def scalar_times_m_closed scalar_times_v_closed Matrix3_def)

lemma m_product_Matrix3:
  "m_product (Matrix3 a b c d e f g h k) (Matrix3 x1 x2 x3 y1 y2 y3 z1 z2 z3) =
     Inr (Matrix3 (a * x1 + b * y1 + c * z1) (a * x2 + b * y2 + c * z2) (a * x3 + b * y3 + c * z3)
                  (d * x1 + e * y1 + f * z1) (d * x2 + e * y2 + f * z2) (d * x3 + e * y3 + f * z3)
                  (g * x1 + h * y1 + k * z1) (g * x2 + h * y2 + k * z2) (g * x3 + h * y3 + k * z3))"
  by (simp add: m_product_closed dot_def)

lemma Matrix3_fields:
  "m = Matrix3 (vec_x (row_0 m)) (vec_y (row_0 m)) (vec_z (row_0 m))
               (vec_x (row_1 m)) (vec_y (row_1 m)) (vec_z (row_1 m))
               (vec_x (row_2 m)) (vec_y (row_2 m)) (vec_z (row_2 m))"
  by (simp add: Matrix3_def Vector3_def)

lemma round_trip_Matrix3:
  fixes a b c d e f g h k :: real
  assumes D: "D = a * (e * k - f * h) - b * (d * k - f * g) + c * (d * h - e * g)"
    and big: "double_0_000001 \<le> \<bar>D\<bar>"
  shows "bindR (m_inverse (Matrix3 a b c d e f g h k)) (m_product (Matrix3 a b c d e f g h k)) =
     Inr (Matrix3 1 (c * (b * (h - g)) / D) 0
                  0 (1 + f * (b * (h - g)) / D) 0
                  0 (k * (b * (h - g)) / D) 1)"
proof -
  from big double_0_000001_pos have nz: "D \<noteq> 0" and ge: "\<not> \<bar>D\<bar> < double_0_000001"
    by auto
  show ?thesis
    unfolding m_inverse_Matrix3 [OF D ge] bindR_Inr m_product_Matrix3
      round_trip_entries [OF D nz] ..
qed

lemma product_inverse_identity_iff:
  assumes big: "double_0_000001 \<le> \<bar>det_of m\<bar>"
  shows "bindR (m_inverse m) (m_product m) = Inr kIdentity \<longleftrightarrow>
     vec_y (row_0 m) = 0 \<or> vec_x (row_2 m) = vec_y (row_2 m)"
proof -
  define a b c d e f g h k where abc: "a = vec_x (row_0 m)" "b = vec_y (row_0 m)" "c = vec_z (row_0 m)"
    "d = vec_x (row_1 m)" "e = vec_y (row_1 m)" "f = vec_z (row_1 m)"
    "g = vec_x (row_2 m)" "h = vec_y (row_2 m)" "k = vec_z (row_2 m)"
  define D where "D = det_of m"
  have m: "m = Matrix3 a b c d e f g h k"
    unfolding abc by (rule Matrix3_fields)
  have D: "D = a * (e * k - f * h) - b * (d * k - f * g) + c * (d * h - e * g)"
    unfolding D_def det_of_def abc ..
  from big double_0_000001_pos have nz: "D \<noteq> 0" and bigD: "double_0_000001 \<le> \<bar>D\<bar>"
    by (auto simp add: D_def)
  have "bindR (m_inverse m) (m_product m) = Inr kIdentity \<longleftrightarrow>
      c * (b * (h - g)) = 0 \<and> f * (b * (h - g)) = 0 \<and> k * (b * (h - g)) = 0"
    unfolding m round_trip_Matrix3 [OF D bigD] kIdentity_def using nz by simp
  also have "\<dots> \<longleftrightarrow> b * (h - g) = 0"
  proof
    assume zero: "c * (b * (h - g)) = 0 \<and> f * (b * (h - g)) = 0 \<and> k * (b * (h - g)) = 0"
    show "b * (h - g) = 0"
    proof (rule ccontr)
      assume "b * (h - g) \<noteq> 0"
      with zero have "c = 0" "f = 0" "k = 0"
        by simp_all
      then have "D = 0"
        unfolding D by simp
      with nz show False ..
    qed
  next
    assume "b * (h - g) = 0"
    then show "c * (b * (h - g)) = 0 \<and> f * (b * (h - g)) = 0 \<and> k * (b * (h - g)) = 0"
      by simp
  qed
  also have "\<dots> \<longleftrightarrow> b = 0 \<or> g = h"
    by auto
  finally show ?thesis
    unfolding abc .
qed

text \<open>
  At a determinant equal to the threshold the guard does not fire: the comparison is
  strict.
\<close>

lemma inverse_at_threshold:
  "m_det (Matrix3 double_0_000001 0 0 0 1 0 0 0 1) = Inr double_0_000001 \<and>
   m_inverse (Matrix3 double_0_000001 0 0 0 1 0 0 0 1) =
     Inr (Matrix3 (1 / double_0_000001) 0 0 0 1 0 0 0 1)"
proof -
  have det: "m_det (Matrix3 double_0_000001 0 0 0 1 0 0 0 1) = Inr double_0_000001"
    by (simp add: m_det_closed det_of_def)
  have inv: "m_inverse (Matrix3 double_0_000001 0 0 0 1 0 0 0 1) =
      Inr (Matrix3 (1 / double_0_000001) 0 0 0 1 0 0 0 1)"
    using double_0_000001_pos
    by (simp add: m_inverse_closed det_of_def scalar_times_m_closed scalar_times_v_closed
        Matrix3_def Vector3_def)
  from det inv show ?thesis
    by simp
qed


section \<open>Indexed accessors\<close>

text \<open>
  C6. For every index \<open>i\<close>, the read and the write overloads of \<open>operator[]\<close> of
  \<open>Vector3\<close> and of \<open>Matrix3\<close> throw \<open>out_of_range\<close> exactly when \<open>i\<close> is below 0 or
  above 2, and return exactly when \<open>i\<close> is 0, 1 or 2: the read overloads return the
  component or the row of that index, the write overloads a reference to it, and the
  write overloads leave the object as it was.
\<close>

theorem index_out_of_range:
  "(v_index v i = Inl out_of_range) = (i < 0 \<or> 2 < i) \<and>
   (\<exists>a. v_index v i = Inr a) = (0 \<le> i \<and> i \<le> 2) \<and>
   v_index v 0 = Inr (vec_x v) \<and> v_index v 1 = Inr (vec_y v) \<and> v_index v 2 = Inr (vec_z v) \<and>
   (fst (v_index_ref v i) = Inl out_of_range) = (i < 0 \<or> 2 < i) \<and>
   (\<exists>r. fst (v_index_ref v i) = Inr r) = (0 \<le> i \<and> i \<le> 2) \<and>
   fst (v_index_ref v 0) = Inr ref_x \<and> fst (v_index_ref v 1) = Inr ref_y \<and>
   fst (v_index_ref v 2) = Inr ref_z \<and>
   vref_read v ref_x = vec_x v \<and> vref_read v ref_y = vec_y v \<and> vref_read v ref_z = vec_z v \<and>
   snd (v_index_ref v i) = v \<and>
   (m_index m i = Inl out_of_range) = (i < 0 \<or> 2 < i) \<and>
   (\<exists>a. m_index m i = Inr a) = (0 \<le> i \<and> i \<le> 2) \<and>
   m_index m 0 = Inr (row_0 m) \<and> m_index m 1 = Inr (row_1 m) \<and> m_index m 2 = Inr (row_2 m) \<and>
   (fst (m_index_ref m i) = Inl out_of_range) = (i < 0 \<or> 2 < i) \<and>
   (\<exists>r. fst (m_index_ref m i) = Inr r) = (0 \<le> i \<and> i \<le> 2) \<and>
   fst (m_index_ref m 0) = Inr ref_row_0 \<and> fst (m_index_ref m 1) = Inr ref_row_1 \<and>
   fst (m_index_ref m 2) = Inr ref_row_2 \<and>
   mref_read m ref_row_0 = row_0 m \<and> mref_read m ref_row_1 = row_1 m \<and>
   mref_read m ref_row_2 = row_2 m \<and>
   snd (m_index_ref m i) = m"
proof -
  have v_read: "(v_index v i = Inl out_of_range) = (i < 0 \<or> 2 < i) \<and>
    (\<exists>a. v_index v i = Inr a) = (0 \<le> i \<and> i \<le> 2)"
    by (auto simp add: v_index_def)
  have v_write: "(fst (v_index_ref v i) = Inl out_of_range) = (i < 0 \<or> 2 < i) \<and>
    (\<exists>r. fst (v_index_ref v i) = Inr r) = (0 \<le> i \<and> i \<le> 2) \<and> snd (v_index_ref v i) = v"
    by (auto simp add: v_index_ref_def)
  have v_refs: "fst (v_index_ref v 0) = Inr ref_x \<and> fst (v_index_ref v 1) = Inr ref_y \<and>
    fst (v_index_ref v 2) = Inr ref_z \<and>
    vref_read v ref_x = vec_x v \<and> vref_read v ref_y = vec_y v \<and> vref_read v ref_z = vec_z v"
    by (simp add: v_index_ref_def vref_read_def)
  have m_read: "(m_index m i = Inl out_of_range) = (i < 0 \<or> 2 < i) \<and>
    (\<exists>a. m_index m i = Inr a) = (0 \<le> i \<and> i \<le> 2)"
    by (auto simp add: m_index_def)
  have m_write: "(fst (m_index_ref m i) = Inl out_of_range) = (i < 0 \<or> 2 < i) \<and>
    (\<exists>r. fst (m_index_ref m i) = Inr r) = (0 \<le> i \<and> i \<le> 2) \<and> snd (m_index_ref m i) = m"
    by (auto simp add: m_index_ref_def)
  have m_refs: "fst (m_index_ref m 0) = Inr ref_row_0 \<and> fst (m_index_ref m 1) = Inr ref_row_1 \<and>
    fst (m_index_ref m 2) = Inr ref_row_2 \<and>
    mref_read m ref_row_0 = row_0 m \<and> mref_read m ref_row_1 = row_1 m \<and>
    mref_read m ref_row_2 = row_2 m"
    by (simp add: m_index_ref_def mref_read_def)
  from v_read v_write v_refs m_read m_write m_refs show ?thesis
    by simp
qed

section \<open>Rotation about an axis\<close>

text \<open>
  About the z axis, \<open>rotateAround\<close> returns the rotation of the plane by the angle, and
  the image of \<open>(1, 0, 0)\<close> is \<open>(cos t, sin t, 0)\<close>. An angle within \<open>1e-9\<close> of
  \<open>pi / 2\<close>, as the double nearest to it is, still gives an image within \<open>1e-9\<close> of
  \<open>(0, 1, 0)\<close>.
\<close>

lemma rotateAround_z:
  "rotateAround (Vector3 0 0 1) t =
     Inr (Isometry Vector3_default (Matrix3 (cos t) (- sin t) 0 (sin t) (cos t) 0 0 0 1))"
  by (simp add: rotateAround_def norm_v_def dot_def Let_def)

lemma transform_rotation_z:
  "transform (Isometry Vector3_default (Matrix3 (cos t) (- sin t) 0 (sin t) (cos t) 0 0 0 1))
     (Vector3 1 0 0) = Vector3 (cos t) (sin t) 0"
  by (simp add: transform_def v_plus_closed m_times_vec_def dot_def Vector3_default_def)

lemma cos_near: "\<bar>cos t\<bar> \<le> \<bar>t - pi / 2\<bar>" for t :: real
proof -
  have "cos t = sin (pi / 2 - t)"
    by (simp add: sin_diff)
  then have "\<bar>cos t\<bar> \<le> \<bar>pi / 2 - t\<bar>"
    using abs_sin_x_le_abs_x [of "pi / 2 - t"] by simp
  then show ?thesis
    by simp
qed

lemma one_minus_cos: "\<bar>cos x - 1\<bar> \<le> \<bar>x\<bar>" for x :: real
proof -
  have "cos x = 1 - 2 * (sin (x / 2))\<^sup>2"
    using cos_double_sin [of "x / 2"] by simp
  then have eq: "\<bar>cos x - 1\<bar> = 2 * (\<bar>sin (x / 2)\<bar> * \<bar>sin (x / 2)\<bar>)"
    by (simp add: power2_eq_square abs_mult)
  have "\<bar>sin (x / 2)\<bar> * \<bar>sin (x / 2)\<bar> \<le> \<bar>x / 2\<bar> * 1"
  proof (rule mult_mono)
    show "\<bar>sin (x / 2)\<bar> \<le> \<bar>x / 2\<bar>"
      by (rule abs_sin_x_le_abs_x)
  qed simp_all
  with eq show ?thesis
    by simp
qed

lemma sin_near: "\<bar>sin t - 1\<bar> \<le> \<bar>t - pi / 2\<bar>" for t :: real
proof -
  have "sin t = cos (pi / 2 - t)"
    by (simp add: cos_diff)
  then have "\<bar>sin t - 1\<bar> \<le> \<bar>pi / 2 - t\<bar>"
    using one_minus_cos [of "pi / 2 - t"] by simp
  then show ?thesis
    by simp
qed

lemma rotate_near_quarter_turn_z:
  assumes "\<bar>t - pi / 2\<bar> \<le> 1 / 10 ^ 9"
  shows "\<exists>I. rotateAround (Vector3 0 0 1) t = Inr I \<and>
     \<bar>vec_x (transform I (Vector3 1 0 0)) - 0\<bar> \<le> 1 / 10 ^ 9 \<and>
     \<bar>vec_y (transform I (Vector3 1 0 0)) - 1\<bar> \<le> 1 / 10 ^ 9 \<and>
     \<bar>vec_z (transform I (Vector3 1 0 0)) - 0\<bar> \<le> 1 / 10 ^ 9"
proof -
  from assms cos_near [of t] have x: "\<bar>cos t - 0\<bar> \<le> 1 / 10 ^ 9"
    by simp
  from assms sin_near [of t] have y: "\<bar>sin t - 1\<bar> \<le> 1 / 10 ^ 9"
    by simp
  from x y show ?thesis
    unfolding rotateAround_z by (simp add: transform_rotation_z)
qed

text \<open>
  C8. \<open>rotateAround(Vector3(0, 0, 1), pi / 2)\<close> returns an isometry whose \<open>transform\<close>
  takes the point \<open>(1, 0, 0)\<close> to within \<open>1e-9\<close> of \<open>(0, 1, 0)\<close> in each component.
\<close>

theorem rotate_quarter_turn_z:
  "\<exists>I. rotateAround (Vector3 0 0 1) (pi / 2) = Inr I \<and>
     \<bar>vec_x (transform I (Vector3 1 0 0)) - 0\<bar> \<le> 1 / 10 ^ 9 \<and>
     \<bar>vec_y (transform I (Vector3 1 0 0)) - 1\<bar> \<le> 1 / 10 ^ 9 \<and>
     \<bar>vec_z (transform I (Vector3 1 0 0)) - 0\<bar> \<le> 1 / 10 ^ 9"
proof -
  have rot: "rotateAround (Vector3 0 0 1) (pi / 2)
    = Inr (Isometry Vector3_default (Matrix3 0 (- 1) 0 1 0 0 0 0 1))"
    by (simp add: rotateAround_def norm_v_def dot_def)
  have tr: "transform (Isometry Vector3_default (Matrix3 0 (- 1) 0 1 0 0 0 0 1)) (Vector3 1 0 0)
    = Vector3 0 1 0"
    by (simp add: transform_def v_plus_closed m_times_vec_def dot_def Vector3_default_def)
  from rot tr show ?thesis
    by simp
qed

text \<open>
  C3. The claim: \<open>I.inverse().compose(I).transform(p)\<close> equals \<open>p\<close> for every isometry
  \<open>I\<close> that \<open>rotateAround\<close> builds. The code at \<open>I = rotateAround((0, 0, 1), pi / 2)\<close>
  and \<open>p = (1, 0, 0)\<close>: \<open>inverse\<close> returns the quarter turn back, \<open>compose\<close> multiplies
  the two rotations element by element, and the point comes back as \<open>(0, -1, 0)\<close>,
  which \<open>Vector3::operator==\<close> tells from \<open>p\<close>. The matrix product of the two rotations
  is the identity.
\<close>

theorem inverse_round_trip_at_quarter_turn:
  "rotateAround (Vector3 0 0 1) (pi / 2)
     = Inr (Isometry (Vector3 0 0 0) (Matrix3 0 (- 1) 0 1 0 0 0 0 1)) \<and>
   iso_inverse (Isometry (Vector3 0 0 0) (Matrix3 0 (- 1) 0 1 0 0 0 0 1))
     = Inr (Isometry (Vector3 0 0 0) (Matrix3 0 1 0 (- 1) 0 0 0 0 1)) \<and>
   compose (Isometry (Vector3 0 0 0) (Matrix3 0 1 0 (- 1) 0 0 0 0 1))
           (Isometry (Vector3 0 0 0) (Matrix3 0 (- 1) 0 1 0 0 0 0 1))
     = Inr (Isometry (Vector3 0 0 0) (Matrix3 0 (- 1) 0 (- 1) 0 0 0 0 1)) \<and>
   transform (Isometry (Vector3 0 0 0) (Matrix3 0 (- 1) 0 (- 1) 0 0 0 0 1)) (Vector3 1 0 0)
     = Vector3 0 (- 1) 0 \<and>
   \<not> v_eq (Vector3 0 (- 1) 0) (Vector3 1 0 0) \<and>
   m_product (Matrix3 0 1 0 (- 1) 0 0 0 0 1) (Matrix3 0 (- 1) 0 1 0 0 0 0 1) = Inr kIdentity"
proof -
  have rot: "rotateAround (Vector3 0 0 1) (pi / 2)
    = Inr (Isometry (Vector3 0 0 0) (Matrix3 0 (- 1) 0 1 0 0 0 0 1))"
    by (simp add: rotateAround_def norm_v_def dot_def Vector3_default_def Vector3_def)
  have inv: "iso_inverse (Isometry (Vector3 0 0 0) (Matrix3 0 (- 1) 0 1 0 0 0 0 1))
    = Inr (Isometry (Vector3 0 0 0) (Matrix3 0 1 0 (- 1) 0 0 0 0 1))"
    using double_0_000001_less_one
    by (simp add: iso_inverse_closed m_inverse_closed det_of_def scalar_times_m_closed
        scalar_times_v_closed m_times_vec_def dot_def Matrix3_def)
  have comp: "compose (Isometry (Vector3 0 0 0) (Matrix3 0 1 0 (- 1) 0 0 0 0 1))
      (Isometry (Vector3 0 0 0) (Matrix3 0 (- 1) 0 1 0 0 0 0 1))
    = Inr (Isometry (Vector3 0 0 0) (Matrix3 0 (- 1) 0 (- 1) 0 0 0 0 1))"
    by (simp add: compose_def iso_times_closed v_plus_closed m_times_vec_def dot_def
        v_times_assign_closed Matrix3_def)
  have tr: "transform (Isometry (Vector3 0 0 0) (Matrix3 0 (- 1) 0 (- 1) 0 0 0 0 1))
      (Vector3 1 0 0) = Vector3 0 (- 1) 0"
    by (simp add: transform_def v_plus_closed m_times_vec_def dot_def)
  have differ: "\<not> v_eq (Vector3 0 (- 1) 0) (Vector3 1 0 0)"
    by (simp add: v_eq_def epsilon_def)
  have true_product:
    "m_product (Matrix3 0 1 0 (- 1) 0 0 0 0 1) (Matrix3 0 (- 1) 0 1 0 0 0 0 1) = Inr kIdentity"
    by (simp add: m_product_closed dot_def kIdentity_def)
  from rot inv comp tr differ true_product show ?thesis
    by simp
qed

section \<open>The default isometry\<close>

text \<open>
  C9. The isometry of the default constructor has the zero matrix as its rotation, not
  the identity, and the zero vector as its translation; its \<open>inverse\<close> throws the
  runtime error of the singular matrix, and its \<open>transform\<close> takes every point to the
  zero vector.
\<close>

theorem default_isometry_degenerate:
  "rotation Isometry_default = Matrix3 0 0 0 0 0 0 0 0 0 \<and>
   rotation Isometry_default \<noteq> kIdentity \<and>
   translation Isometry_default = Vector3 0 0 0 \<and>
   iso_inverse Isometry_default = Inl runtime_error \<and>
   transform Isometry_default p = Vector3 0 0 0"
proof -
  have rot: "rotation Isometry_default = Matrix3 0 0 0 0 0 0 0 0 0"
    by (simp add: Isometry_default_def Matrix3_kZero_def)
  have not_id: "rotation Isometry_default \<noteq> kIdentity"
    by (simp add: rot kIdentity_def)
  have tr: "translation Isometry_default = Vector3 0 0 0"
    by (simp add: Isometry_default_def Vector3_default_def Vector3_def)
  have inv: "iso_inverse Isometry_default = Inl runtime_error"
    using double_0_000001_pos
    by (simp add: iso_inverse_closed m_inverse_closed det_of_def rot)
  have maps: "transform Isometry_default p = Vector3 0 0 0"
    by (simp add: transform_def v_plus_closed m_times_vec_def dot_def rot tr)
  from rot not_id tr inv maps show ?thesis
    by simp
qed

section \<open>Vector3 equality\<close>

text \<open>
  C7. Equality of vectors compares each component with the absolute tolerance
  \<open>epsilon\<close>: every vector equals itself; two vectors whose components each differ by at
  most \<open>epsilon\<close> are equal; two vectors one of whose components differs by twice
  \<open>epsilon\<close> are not equal.
\<close>

theorem v_eq_tolerance:
  "v_eq a a \<and>
   (\<bar>vec_x a - vec_x b\<bar> \<le> epsilon \<and> \<bar>vec_y a - vec_y b\<bar> \<le> epsilon \<and>
    \<bar>vec_z a - vec_z b\<bar> \<le> epsilon \<longrightarrow> v_eq a b) \<and>
   (\<bar>vec_x a - vec_x c\<bar> = 2 * epsilon \<or> \<bar>vec_y a - vec_y c\<bar> = 2 * epsilon \<or>
    \<bar>vec_z a - vec_z c\<bar> = 2 * epsilon \<longrightarrow> \<not> v_eq a c)"
proof -
  have pos: "0 < epsilon"
    by (simp add: epsilon_def)
  have refl: "v_eq a a"
    using pos by (simp add: v_eq_def)
  have close: "\<bar>vec_x a - vec_x b\<bar> \<le> epsilon \<and> \<bar>vec_y a - vec_y b\<bar> \<le> epsilon \<and>
    \<bar>vec_z a - vec_z b\<bar> \<le> epsilon \<longrightarrow> v_eq a b"
    by (simp add: v_eq_def)
  have far: "\<bar>vec_x a - vec_x c\<bar> = 2 * epsilon \<or> \<bar>vec_y a - vec_y c\<bar> = 2 * epsilon \<or>
    \<bar>vec_z a - vec_z c\<bar> = 2 * epsilon \<longrightarrow> \<not> v_eq a c"
    using pos unfolding v_eq_def by linarith
  from refl close far show ?thesis
    by blast
qed

theorem v_eq_tolerance_witness:
  "v_eq (Vector3 1 2 3) (Vector3 1 2 3) \<and>
   v_eq (Vector3 1 2 3) (Vector3 (1 + epsilon) 2 (3 - epsilon)) \<and>
   \<not> v_eq (Vector3 1 2 3) (Vector3 1 (2 + 2 * epsilon) 3)"
  using v_eq_tolerance [of "Vector3 1 2 3" "Vector3 (1 + epsilon) 2 (3 - epsilon)"
      "Vector3 1 (2 + 2 * epsilon) 3"]
  by (simp add: Vector3_def epsilon_def)

text \<open>
  C10. Equality of vectors is not transitive: with \<open>a = (0, 0, 0)\<close>,
  \<open>b = (epsilon, 0, 0)\<close> and \<open>c = (2 epsilon, 0, 0)\<close>, \<open>a == b\<close> and \<open>b == c\<close> hold and
  \<open>a == c\<close> does not.
\<close>

theorem v_eq_not_transitive:
  "v_eq (Vector3 0 0 0) (Vector3 epsilon 0 0) \<and>
   v_eq (Vector3 epsilon 0 0) (Vector3 (2 * epsilon) 0 0) \<and>
   \<not> v_eq (Vector3 0 0 0) (Vector3 (2 * epsilon) 0 0) \<and>
   (\<exists>a b c. v_eq a b \<and> v_eq b c \<and> \<not> v_eq a c)"
proof -
  have pos: "0 < epsilon"
    by (simp add: epsilon_def)
  have ab: "v_eq (Vector3 0 0 0) (Vector3 epsilon 0 0)"
    using pos by (simp add: v_eq_def Vector3_def)
  have bc: "v_eq (Vector3 epsilon 0 0) (Vector3 (2 * epsilon) 0 0)"
    using pos by (simp add: v_eq_def Vector3_def)
  have ac: "\<not> v_eq (Vector3 0 0 0) (Vector3 (2 * epsilon) 0 0)"
    using pos by (simp add: v_eq_def Vector3_def)
  from ab bc ac show ?thesis
    by blast
qed

end
